theory Spec2Isabelle
  imports Main "HOL-Library.Word"
begin

section \<open>Strings and bytes\<close>

text \<open>
  A Python \<open>str\<close> is modelled as a \<open>string\<close> whose characters stand for the
  code points below 256; \<open>bytes\<close> is a list of 8-bit words.
\<close>

type_synonym bytes = "8 word list"

definition lower_char :: "char \<Rightarrow> char" where
  "lower_char c =
     (let n = (of_char c :: nat)
      in if (65 \<le> n \<and> n \<le> 90) \<or> (192 \<le> n \<and> n \<le> 222 \<and> n \<noteq> 215)
         then char_of (n + 32) else c)"

text \<open>\<open>str.lower()\<close> on code points below 256.\<close>

definition lower :: "string \<Rightarrow> string" where
  "lower s = map lower_char s"

text \<open>\<open>sep.join(xs)\<close>.\<close>

fun join :: "string \<Rightarrow> string list \<Rightarrow> string" where
  "join sep [] = []"
| "join sep [x] = x"
| "join sep (x # y # ys) = x @ sep @ join sep (y # ys)"

text \<open>\<open>s.split(c)\<close> for a one-character separator.\<close>

fun split_on :: "char \<Rightarrow> string \<Rightarrow> string list" where
  "split_on c [] = [[]]"
| "split_on c (x # xs) =
     (if x = c then [] # split_on c xs
      else (case split_on c xs of w # ws \<Rightarrow> (x # w) # ws | [] \<Rightarrow> [[x]]))"

text \<open>\<open>s.rfind(c)\<close>; \<open>None\<close> stands for Python's \<open>-1\<close>.\<close>

fun rfind :: "char \<Rightarrow> string \<Rightarrow> nat option" where
  "rfind c [] = None"
| "rfind c (x # xs) =
     (case rfind c xs of
        Some i \<Rightarrow> Some (Suc i)
      | None \<Rightarrow> if x = c then Some 0 else None)"

text \<open>\<open>str(n)\<close> for an integer that is not negative.\<close>

fun str_of_nat :: "nat \<Rightarrow> string" where
  "str_of_nat n =
     (if n < 10 then [char_of (48 + n)]
      else str_of_nat (n div 10) @ [char_of (48 + n mod 10)])"

declare str_of_nat.simps [simp del]

subsection \<open>pathlib\<close>

text \<open>
  \<open>PurePosixPath(s).name\<close>: the last component of the path, empty and \<open>.\<close>
  components dropped.
\<close>

definition path_name :: "string \<Rightarrow> string" where
  "path_name s =
     (case filter (\<lambda>p. p \<noteq> [] \<and> p \<noteq> ''.'') (split_on (CHR ''/'') s) of
        [] \<Rightarrow> []
      | p # ps \<Rightarrow> last (p # ps))"

text \<open>
  \<open>Path(s).suffix\<close>: with \<open>i = name.rfind('.')\<close>, the text from \<open>i\<close> on when
  \<open>0 < i < len(name) - 1\<close>, and the empty string otherwise.
\<close>

definition path_suffix :: "string \<Rightarrow> string" where
  "path_suffix s =
     (let name = path_name s
      in case rfind (CHR ''.'') name of
           None \<Rightarrow> []
         | Some i \<Rightarrow> if 0 < i \<and> i < length name - 1 then drop i name else [])"

subsection \<open>urllib.parse\<close>

definition unreserved :: "char \<Rightarrow> bool" where
  "unreserved c \<longleftrightarrow>
     c \<in> set ''ABCDEFGHIJKLMNOPQRSTUVWXYZabcdefghijklmnopqrstuvwxyz0123456789_.-~''"

definition hex_digit :: "nat \<Rightarrow> char" where
  "hex_digit n = ''0123456789ABCDEF'' ! (n mod 16)"

definition percent :: "nat \<Rightarrow> string" where
  "percent b = [CHR ''%'', hex_digit (b div 16), hex_digit b]"

text \<open>The UTF-8 bytes of a code point below 256.\<close>

definition utf8 :: "nat \<Rightarrow> nat list" where
  "utf8 n = (if n < 128 then [n] else [192 + n div 64, 128 + n mod 64])"

definition quote_plus :: "string \<Rightarrow> string" where
  "quote_plus s =
     concat (map (\<lambda>c. if unreserved c then [c]
                       else if c = CHR '' '' then ''+''
                       else concat (map percent (utf8 (of_char c)))) s)"

definition urlencode :: "(string \<times> string) list \<Rightarrow> string" where
  "urlencode params = join ''&'' (map (\<lambda>(k, v). quote_plus k @ ''='' @ quote_plus v) params)"

section \<open>Exceptions\<close>

text \<open>
  The exception classes of a call. \<open>ValueError\<close>, \<open>TypeError\<close> and \<open>OSError\<close> are
  Python's built-in classes; the others are the SDK's own hierarchy under \<open>SdkException\<close>
  (\<open>FileNotFoundError\<close> is the SDK's class of that name, imported by the mixins);
  \<open>PydanticValidationError\<close> is what \<open>model_validate\<close> raises.
\<close>

datatype exc_kind =
    ValueError
  | TypeError
  | OSError
  | SdkException
  | ValidationError
  | FileNotFoundError
  | AuthenticationError
  | AuthorizationError
  | BadRequestError
  | ConflictError
  | DeserializationError
  | InactiveError
  | InUseError
  | InvalidRangeError
  | NotEmptyError
  | ResourceNotFoundError
  | ServerError
  | TimeoutError
  | PydanticValidationError

datatype exc = Exc (kind_of: exc_kind) (message_of: string)

section \<open>configuration.py\<close>

record client =
  base_url :: string
  timeout :: int
  retries :: int



definition get_client :: "client option \<Rightarrow> exc + client" where
  "get_client g =
     (case g of
        None \<Rightarrow> Inl (Exc ValueError ''SDK is not configured. Call 'configure' first.'')
      | Some c \<Rightarrow> Inr c)"

section \<open>utils/url\_helper.py\<close>

text \<open>
  \<open>_get_url_base(cls, *args, **query_params)\<close>: \<open>cls\<close> is read for its
  \<open>RESOURCE_NAME\<close> only; a query parameter whose value is \<open>None\<close> is a flag.
\<close>

definition get_url_base ::
  "string \<Rightarrow> string option list \<Rightarrow> (string \<times> string option) list \<Rightarrow> string"
where
  "get_url_base resource_name args query_params =
     (let remaining_args = [a. Some a \<leftarrow> args];
          parts = resource_name # remaining_args;
          path = join ''/'' (filter (\<lambda>p. p \<noteq> []) parts);
          formatted_params = [(k, v). (k, Some v) \<leftarrow> query_params];
          flags = [k. (k, None) \<leftarrow> query_params];
          query_string = urlencode formatted_params;
          query_string' =
            (if flags \<noteq> []
             then query_string @ (if query_string \<noteq> [] then ''&'' else []) @ join ''&'' flags
             else query_string)
      in if query_string' \<noteq> [] then path @ ''?'' @ query_string' else path)"

section \<open>mixins.py\<close>

subsection \<open>What the mixins talk to\<close>

text \<open>
  A decoded JSON document. Numbers are kept as the text of their literal: nothing here
  computes with them.
\<close>

datatype json =
    JNull
  | JBool bool
  | JNum string
  | JStr string
  | JArr "json list"
  | JObj "(string \<times> json) list"

text \<open>
  The arguments of one \<open>client.request(method, url, content=..., headers=...)\<close> call.
\<close>

record request =
  req_method :: string
  req_url :: string
  req_content :: "bytes option"
  req_headers :: "(string \<times> string) list"

text \<open>
  \<open>BaseClient.request\<close> as the mixins see it: it raises, or returns the decoded body
  (\<open>None\<close> for an empty one). The mixins are stated for any such function.
\<close>

type_synonym sender = "client \<Rightarrow> request \<Rightarrow> exc + json option"

text \<open>What a call does to the outside world, in order.\<close>

datatype event = FileOpened string | FileClosed string | Sent request

fun sent_requests :: "event list \<Rightarrow> request list" where
  "sent_requests [] = []"
| "sent_requests (Sent r # es) = r # sent_requests es"
| "sent_requests (_ # es) = sent_requests es"

text \<open>
  What looking a path up gives (pathlib of Python 3.11, on POSIX). \<open>None\<close>: there is
  no such path and \<open>Path.exists\<close> is false. \<open>RegularFile\<close>: a regular file, with the content that reading it gives.
  \<open>NotRegular\<close>: the path exists and \<open>Path.is_file\<close> is false. \<open>Unreachable\<close>:
  the lookup itself raises an \<open>OSError\<close> that \<open>Path.exists\<close> lets through (a name
  longer than the file system allows, a directory that may not be searched), with the
  error's text. \<open>Unopenable\<close>: a regular file that \<open>open\<close> refuses with an
  \<open>OSError\<close>, with the error's text.
\<close>

datatype fs_entry =
    RegularFile bytes
  | NotRegular
  | Unreachable string
  | Unopenable string

type_synonym filesystem = "string \<Rightarrow> fs_entry option"

text \<open>
  A binary stream handed in by the caller. Its class decides
  \<open>isinstance(file_input, (io.BytesIO, BinaryIO))\<close>: true for \<open>io.BytesIO\<close> and for a
  class that derives from \<open>typing.BinaryIO\<close>, false for every other stream class, named
  here as \<open>type()\<close> prints it (\<open>open(path, "rb")\<close> returns an
  \<open>_io.BufferedReader\<close>).
\<close>

datatype stream_class = BytesIO | BinaryIO | OtherIO string

text \<open>
  The \<open>name\<close> attribute of a stream: absent, a \<open>str\<close>, or \<open>None\<close> (what the
  \<open>name\<close> property of \<open>typing.IO\<close> gives a class that derives from
  \<open>typing.BinaryIO\<close> and does not define its own).
\<close>

datatype name_attr = NoName | Name string | NameNone

record stream =
  stream_class :: stream_class
  stream_name :: name_attr
  stream_data :: bytes
  stream_pos :: nat
  stream_closed :: bool

text \<open>
  The \<open>file_input\<close> argument: a \<open>str\<close>, a \<open>bytes\<close>, a stream, or a value of any
  other type (named as \<open>type()\<close> prints it).
\<close>

datatype file_input =
    PathInput string
  | BytesInput bytes
  | StreamInput stream
  | OtherInput string

text \<open>
  The file object \<open>_prepare_file_input\<close> returns: the file it opened, the
  \<open>io.BytesIO\<close> it wrapped around the caller's bytes, or the caller's stream.
\<close>

datatype file_obj = OpenedFile string bytes | Buffer bytes | Given stream

definition type_repr :: "string \<Rightarrow> string" where
  "type_repr ty = ''<class '' @ [CHR 0x27] @ ty @ [CHR 0x27] @ ''>''"

definition unexpected_type :: "string \<Rightarrow> exc" where
  "unexpected_type ty =
     Exc ValidationError
       (''file_input must be str (file path), bytes, or file-like object, got '' @ type_repr ty)"

subsection \<open>\_prepare\_file\_input\<close>

text \<open>
  Both mixins carry the same body. \<open>not filename\<close> holds for \<open>None\<close> and for the
  empty string. The file name returned is a \<open>str\<close>, or \<open>None\<close> when it was read
  off a stream whose \<open>name\<close> is \<open>None\<close>: \<open>getattr(file_input, "name", "file")\<close>
  gives the default only when the attribute is absent, and \<open>None == "file"\<close> is false.
\<close>

definition prepare_file_input ::
  "filesystem \<Rightarrow> file_input \<Rightarrow> string option \<Rightarrow> exc + (file_obj \<times> string option)"
where
  "prepare_file_input fs fi filename =
     (case fi of
        PathInput p \<Rightarrow>
          (case fs p of
             None \<Rightarrow> Inl (Exc FileNotFoundError (''File does not exist: '' @ p))
           | Some (Unreachable e) \<Rightarrow> Inl (Exc OSError e)
           | Some NotRegular \<Rightarrow> Inl (Exc ValidationError (''Path is not a file: '' @ p))
           | Some (Unopenable e) \<Rightarrow> Inl (Exc OSError e)
           | Some (RegularFile d) \<Rightarrow> Inr (OpenedFile p d, Some (path_name p)))
      | BytesInput b \<Rightarrow>
          (case filename of
             Some (c # cs) \<Rightarrow> Inr (Buffer b, Some (c # cs))
           | _ \<Rightarrow> Inl (Exc ValidationError ''filename is required when file_input is bytes''))
      | StreamInput s \<Rightarrow>
          (case stream_class s of
             OtherIO ty \<Rightarrow> Inl (unexpected_type ty)
           | _ \<Rightarrow>
               (case filename of
                  Some (c # cs) \<Rightarrow> Inr (Given s, Some (c # cs))
                | _ \<Rightarrow>
                    (let name = (case stream_name s of
                                   NoName \<Rightarrow> Some ''file''
                                 | Name n \<Rightarrow> Some n
                                 | NameNone \<Rightarrow> None)
                     in if name = Some ''file''
                        then Inl (Exc ValidationError
                          ''filename is required when file_input is a file-like object without a name'')
                        else Inr (Given s, name))))
      | OtherInput ty \<Rightarrow> Inl (unexpected_type ty))"

subsection \<open>Reading the payload and sending it\<close>

definition seek0 :: "stream \<Rightarrow> stream" where
  "seek0 s = s\<lparr>stream_pos := 0\<rparr>"

definition read_all :: "stream \<Rightarrow> bytes \<times> stream" where
  "read_all s = (drop (stream_pos s) (stream_data s), s\<lparr>stream_pos := length (stream_data s)\<rparr>)"

text \<open>
  \<open>file_obj.seek(0)\<close> followed by \<open>file_obj.read()\<close>; a closed stream raises
  \<open>ValueError\<close>.
\<close>

definition read_from_start :: "file_obj \<Rightarrow> exc + bytes" where
  "read_from_start f =
     (case f of
        OpenedFile p d \<Rightarrow> Inr d
      | Buffer d \<Rightarrow> Inr d
      | Given s \<Rightarrow>
          if stream_closed s then Inl (Exc ValueError ''I/O operation on closed file.'')
          else Inr (fst (read_all (seek0 s))))"

definition opened :: "file_obj \<Rightarrow> event list" where
  "opened f = (case f of OpenedFile p d \<Rightarrow> [FileOpened p] | _ \<Rightarrow> [])"

definition closed :: "file_obj \<Rightarrow> event list" where
  "closed f = (case f of OpenedFile p d \<Rightarrow> [FileClosed p] | _ \<Rightarrow> [])"

text \<open>
  The \<open>try ... finally\<close> block both operations end with: read the payload, post it
  with its content type, and close the file if this call opened it.
\<close>

definition send_file ::
  "sender \<Rightarrow> client \<Rightarrow> file_obj \<Rightarrow> string \<Rightarrow> string \<Rightarrow> (exc + json option) \<times> event list"
where
  "send_file send c f url content_type =
     (case read_from_start f of
        Inl e \<Rightarrow> (Inl e, opened f @ closed f)
      | Inr file_content \<Rightarrow>
          (let req = \<lparr>req_method = ''POST'', req_url = url,
                      req_content = Some file_content,
                      req_headers = [(''Content-Type'', content_type)]\<rparr>
           in (send c req, opened f @ [Sent req] @ closed f)))"

subsection \<open>ConnectivityCheckableAPIResource\<close>

text \<open>
  \<open>get_client()\<close> is called before the \<open>try\<close> block, so its exception is not
  wrapped; any exception of the request is wrapped in an \<open>SdkException\<close>. The log line
  is left out.
\<close>

definition validate_connectivity ::
  "client option \<Rightarrow> sender \<Rightarrow> (exc + bool) \<times> event list"
where
  "validate_connectivity g send =
     (case get_client g of
        Inl e \<Rightarrow> (Inl e, [])
      | Inr c \<Rightarrow>
          (let req = \<lparr>req_method = ''HEAD'', req_url = [], req_content = None, req_headers = []\<rparr>
           in (case send c req of
                 Inl e \<Rightarrow>
                   Inl (Exc SdkException (''Failed to validate connectivity: '' @ message_of e))
               | Inr r \<Rightarrow> Inr True,
               [Sent req])))"

subsection \<open>TypeDetectableAPIResource\<close>

definition mime_map :: "(string \<times> string) list" where
  "mime_map =
     [(''.pdf'', ''application/pdf''),
      (''.png'', ''image/png''),
      (''.jpg'', ''image/jpeg''),
      (''.jpeg'', ''image/jpeg''),
      (''.docx'', ''application/vnd.openxmlformats-officedocument.wordprocessingml.document''),
      (''.doc'', ''application/msword''),
      (''.xlsx'', ''application/vnd.openxmlformats-officedocument.spreadsheetml.sheet''),
      (''.xls'', ''application/vnd.ms-excel''),
      (''.pptx'', ''application/vnd.openxmlformats-officedocument.presentationml.presentation''),
      (''.ppt'', ''application/vnd.ms-powerpoint''),
      (''.txt'', ''text/plain''),
      (''.html'', ''text/html''),
      (''.htm'', ''text/html''),
      (''.csv'', ''text/csv''),
      (''.json'', ''application/json''),
      (''.xml'', ''application/xml''),
      (''.md'', ''text/markdown''),
      (''.rtf'', ''application/rtf'')]"

text \<open>
  \<open>mime_map.get(Path(file_name).suffix.lower(), "application/octet-stream")\<close>.
\<close>

definition content_type_for :: "string \<Rightarrow> string" where
  "content_type_for file_name =
     (case map_of mime_map (lower (path_suffix file_name)) of
        Some m \<Rightarrow> m
      | None \<Rightarrow> ''application/octet-stream'')"

text \<open>
  \<open>Path(file_name)\<close> raises \<open>TypeError\<close> when the file name is \<open>None\<close>; this is
  before the \<open>try\<close> block, and only a caller's stream has such a name, so no file is
  open then.
\<close>

definition detect_type ::
  "client option \<Rightarrow> filesystem \<Rightarrow> sender \<Rightarrow> file_input \<Rightarrow> string option
   \<Rightarrow> (exc + json option) \<times> event list"
where
  "detect_type g fs send fi filename =
     (case get_client g of
        Inl e \<Rightarrow> (Inl e, [])
      | Inr c \<Rightarrow>
          (case prepare_file_input fs fi filename of
             Inl e \<Rightarrow> (Inl e, [])
           | Inr (f, None) \<Rightarrow>
               (Inl (Exc TypeError
                  ''expected str, bytes or os.PathLike object, not NoneType''), [])
           | Inr (f, Some file_name) \<Rightarrow>
               send_file send c f (get_url_base ''typedetect'' [] [])
                 (content_type_for file_name)))"

subsection \<open>AtomExtractableAPIResource\<close>

text \<open>
  \<open>SUPPORTED_FORMATS\<close> is a Python set; it is listed in the source's order, which is
  the alphabetical order \<open>sorted\<close> gives the error message.
\<close>

definition SUPPORTED_FORMATS :: "string list" where
  "SUPPORTED_FORMATS =
     [''csv'', ''excel'', ''html'', ''json'', ''markdown'', ''ocr'', ''pdf'', ''png'',
      ''powerpoint'', ''rtf'', ''text'', ''word'', ''xml'']"

definition FORMATS_WITH_OCR :: "string list" where
  "FORMATS_WITH_OCR = [''pdf'', ''powerpoint'', ''rtf'']"

definition MIME_TYPES :: "(string \<times> string) list" where
  "MIME_TYPES =
     [(''csv'', ''text/csv''),
      (''excel'', ''application/vnd.openxmlformats-officedocument.spreadsheetml.sheet''),
      (''html'', ''text/html''),
      (''json'', ''application/json''),
      (''markdown'', ''text/markdown''),
      (''ocr'', ''application/octet-stream''),
      (''pdf'', ''application/pdf''),
      (''png'', ''image/png''),
      (''powerpoint'',
         ''application/vnd.openxmlformats-officedocument.presentationml.presentation''),
      (''rtf'', ''application/rtf''),
      (''text'', ''text/plain''),
      (''word'', ''application/vnd.openxmlformats-officedocument.wordprocessingml.document''),
      (''xml'', ''application/xml'')]"

definition unsupported_format :: "string \<Rightarrow> exc" where
  "unsupported_format fmt =
     Exc ValidationError
       (''Unsupported format: '' @ fmt @ ''. Supported formats: '' @ join '', '' SUPPORTED_FORMATS)"

text \<open>The query parameters: the \<open>ocr\<close> flag, or none.\<close>

definition ocr_params :: "string \<Rightarrow> bool option \<Rightarrow> (string \<times> string option) list" where
  "ocr_params fmt ocr =
     (if fmt \<in> set FORMATS_WITH_OCR \<and> ocr \<noteq> None
      then (if ocr = Some True then [(''ocr'', None)] else [])
      else [])"

definition extract_atoms ::
  "client option \<Rightarrow> filesystem \<Rightarrow> sender \<Rightarrow> file_input \<Rightarrow> string \<Rightarrow> bool option
   \<Rightarrow> string option \<Rightarrow> (exc + json option) \<times> event list"
where
  "extract_atoms g fs send fi format_type ocr filename =
     (case get_client g of
        Inl e \<Rightarrow> (Inl e, [])
      | Inr c \<Rightarrow>
          (let fmt = lower format_type
           in if fmt \<notin> set SUPPORTED_FORMATS then (Inl (unsupported_format fmt), [])
              else
                (case prepare_file_input fs fi filename of
                   Inl e \<Rightarrow> (Inl e, [])
                 | Inr (f, file_name) \<Rightarrow>
                     (let params = ocr_params fmt ocr;
                          url = get_url_base ''atom'' [Some fmt] params;
                          content_type =
                            (case map_of MIME_TYPES fmt of
                               Some m \<Rightarrow> m
                             | None \<Rightarrow> ''application/octet-stream'')
                      in send_file send c f url content_type))))"

section \<open>models\<close>

text \<open>
  The pydantic models, and \<open>model_validate\<close> on a decoded JSON document. A field is
  read under its alias first and, since every model sets \<open>populate_by_name\<close>, under its
  own name otherwise; keys the model does not declare are ignored. A failed validation
  raises pydantic's error, whose message is abstracted to the model's name.
\<close>

record atom_model =
  atom_content :: string
  atom_type :: "string option"
  atom_position :: "(string \<times> json) list option"
  atom_metadata :: "(string \<times> json) list option"

record atom_extraction_result =
  result_atoms :: "atom_model list"
  result_metadata :: "(string \<times> json) list option"
  result_file_type :: "string option"

record 'f type_detection_result =
  detected_file_type :: string
  detected_confidence :: "'f option"
  detected_metadata :: "(string \<times> json) list option"

definition field :: "(string \<times> json) list \<Rightarrow> string \<Rightarrow> string \<Rightarrow> json option" where
  "field kv alias name = (case map_of kv alias of Some v \<Rightarrow> Some v | None \<Rightarrow> map_of kv name)"

text \<open>
  The validators of the field types; the argument is the field's value, \<open>None\<close> when
  the key is absent, and the result is \<open>None\<close> when the value is refused.
\<close>

definition required_str :: "json option \<Rightarrow> string option" where
  "required_str v = (case v of Some (JStr s) \<Rightarrow> Some s | _ \<Rightarrow> None)"

definition optional_str :: "json option \<Rightarrow> string option option" where
  "optional_str v =
     (case v of
        None \<Rightarrow> Some None
      | Some JNull \<Rightarrow> Some None
      | Some (JStr s) \<Rightarrow> Some (Some s)
      | _ \<Rightarrow> None)"

definition optional_dict :: "json option \<Rightarrow> (string \<times> json) list option option" where
  "optional_dict v =
     (case v of
        None \<Rightarrow> Some None
      | Some JNull \<Rightarrow> Some None
      | Some (JObj kv) \<Rightarrow> Some (Some kv)
      | _ \<Rightarrow> None)"

text \<open>
  \<open>Optional[float]\<close>: which values pydantic coerces to a float, and to which, is the
  parameter \<open>to_float\<close>.
\<close>

definition optional_float :: "(json \<Rightarrow> 'f option) \<Rightarrow> json option \<Rightarrow> 'f option option" where
  "optional_float to_float v =
     (case v of
        None \<Rightarrow> Some None
      | Some JNull \<Rightarrow> Some None
      | Some j \<Rightarrow> map_option Some (to_float j))"

definition validate_atom :: "json \<Rightarrow> atom_model option" where
  "validate_atom j =
     (case j of
        JObj kv \<Rightarrow>
          (case (required_str (field kv ''Content'' ''content''),
                 optional_str (field kv ''AtomType'' ''atom_type''),
                 optional_dict (field kv ''Position'' ''position''),
                 optional_dict (field kv ''Metadata'' ''metadata'')) of
             (Some c, Some t, Some p, Some m) \<Rightarrow>
               Some \<lparr>atom_content = c, atom_type = t, atom_position = p, atom_metadata = m\<rparr>
           | _ \<Rightarrow> None)
      | _ \<Rightarrow> None)"

text \<open>\<open>List[AtomModel]\<close> with \<open>default_factory=list\<close>.\<close>

definition atoms_field :: "json option \<Rightarrow> atom_model list option" where
  "atoms_field v =
     (case v of
        None \<Rightarrow> Some []
      | Some (JArr xs) \<Rightarrow> those (map validate_atom xs)
      | _ \<Rightarrow> None)"

definition AtomExtractionResultModel :: "json option \<Rightarrow> exc + atom_extraction_result" where
  "AtomExtractionResultModel r =
     (case r of
        Some (JObj kv) \<Rightarrow>
          (case (atoms_field (field kv ''Atoms'' ''atoms''),
                 optional_dict (field kv ''Metadata'' ''metadata''),
                 optional_str (field kv ''FileType'' ''file_type'')) of
             (Some a, Some m, Some f) \<Rightarrow>
               Inr \<lparr>result_atoms = a, result_metadata = m, result_file_type = f\<rparr>
           | _ \<Rightarrow> Inl (Exc PydanticValidationError ''AtomExtractionResultModel''))
      | _ \<Rightarrow> Inl (Exc PydanticValidationError ''AtomExtractionResultModel''))"

definition TypeDetectionResultModel ::
  "(json \<Rightarrow> 'f option) \<Rightarrow> json option \<Rightarrow> exc + 'f type_detection_result"
where
  "TypeDetectionResultModel to_float r =
     (case r of
        Some (JObj kv) \<Rightarrow>
          (case (required_str (field kv ''FileType'' ''file_type''),
                 optional_float to_float (field kv ''Confidence'' ''confidence''),
                 optional_dict (field kv ''Metadata'' ''metadata'')) of
             (Some f, Some c, Some m) \<Rightarrow>
               Inr \<lparr>detected_file_type = f, detected_confidence = c, detected_metadata = m\<rparr>
           | _ \<Rightarrow> Inl (Exc PydanticValidationError ''TypeDetectionResultModel''))
      | _ \<Rightarrow> Inl (Exc PydanticValidationError ''TypeDetectionResultModel''))"

section \<open>resources\<close>

text \<open>
  The resource classes run the mixin's operation and validate what it returns against
  their \<open>MODEL\<close>.
\<close>

definition TypeDetection_detect_type ::
  "(json \<Rightarrow> 'f option) \<Rightarrow> client option \<Rightarrow> filesystem \<Rightarrow> sender \<Rightarrow> file_input
   \<Rightarrow> string option \<Rightarrow> (exc + 'f type_detection_result) \<times> event list"
where
  "TypeDetection_detect_type to_float g fs send fi filename =
     (case detect_type g fs send fi filename of
        (Inl e, es) \<Rightarrow> (Inl e, es)
      | (Inr result, es) \<Rightarrow> (TypeDetectionResultModel to_float result, es))"

definition AtomExtraction_extract_atoms ::
  "client option \<Rightarrow> filesystem \<Rightarrow> sender \<Rightarrow> file_input \<Rightarrow> string \<Rightarrow> bool option
   \<Rightarrow> string option \<Rightarrow> (exc + atom_extraction_result) \<times> event list"
where
  "AtomExtraction_extract_atoms g fs send fi format_type ocr filename =
     (case extract_atoms g fs send fi format_type ocr filename of
        (Inl e, es) \<Rightarrow> (Inl e, es)
      | (Inr result, es) \<Rightarrow> (AtomExtractionResultModel result, es))"

text \<open>
  The per-format operations. Each calls the mixin's method of its name, which calls
  \<open>cls.extract_atoms\<close> with the format fixed, that is the resource's own
  \<open>extract_atoms\<close> above; validating the model instance it returns a second time gives
  the instance back.
\<close>

definition extract_atoms_csv where
  "extract_atoms_csv g fs send fi filename =
     AtomExtraction_extract_atoms g fs send fi ''csv'' None filename"

definition extract_atoms_excel where
  "extract_atoms_excel g fs send fi filename =
     AtomExtraction_extract_atoms g fs send fi ''excel'' None filename"

definition extract_atoms_html where
  "extract_atoms_html g fs send fi filename =
     AtomExtraction_extract_atoms g fs send fi ''html'' None filename"

definition extract_atoms_json where
  "extract_atoms_json g fs send fi filename =
     AtomExtraction_extract_atoms g fs send fi ''json'' None filename"

definition extract_atoms_markdown where
  "extract_atoms_markdown g fs send fi filename =
     AtomExtraction_extract_atoms g fs send fi ''markdown'' None filename"

definition extract_atoms_ocr where
  "extract_atoms_ocr g fs send fi filename =
     AtomExtraction_extract_atoms g fs send fi ''ocr'' None filename"

definition extract_atoms_pdf where
  "extract_atoms_pdf g fs send fi ocr filename =
     AtomExtraction_extract_atoms g fs send fi ''pdf'' ocr filename"

definition extract_atoms_png where
  "extract_atoms_png g fs send fi filename =
     AtomExtraction_extract_atoms g fs send fi ''png'' None filename"

definition extract_atoms_powerpoint where
  "extract_atoms_powerpoint g fs send fi ocr filename =
     AtomExtraction_extract_atoms g fs send fi ''powerpoint'' ocr filename"

definition extract_atoms_rtf where
  "extract_atoms_rtf g fs send fi ocr filename =
     AtomExtraction_extract_atoms g fs send fi ''rtf'' ocr filename"

definition extract_atoms_text where
  "extract_atoms_text g fs send fi filename =
     AtomExtraction_extract_atoms g fs send fi ''text'' None filename"

definition extract_atoms_word where
  "extract_atoms_word g fs send fi filename =
     AtomExtraction_extract_atoms g fs send fi ''word'' None filename"

definition extract_atoms_xml where
  "extract_atoms_xml g fs send fi filename =
     AtomExtraction_extract_atoms g fs send fi ''xml'' None filename"

section \<open>The request client\<close>

text \<open>
  base.py, exceptions.py and the error-code enumeration are missing; this section follows
  the spec's sections 4.2 and 4.3.
\<close>

datatype api_error =
    AuthenticationFailure
  | AuthorizationFailure
  | BadRequest
  | Conflict
  | DeserializationFailure
  | Inactive
  | InUse
  | InvalidRange
  | NotEmpty
  | NotFound
  | InternalError
  | TimedOut

text \<open>Modelled from the spec: the table of section 4.3 (exceptions.py is missing).\<close>

fun exception_for :: "api_error \<Rightarrow> exc_kind" where
  "exception_for AuthenticationFailure = AuthenticationError"
| "exception_for AuthorizationFailure = AuthorizationError"
| "exception_for BadRequest = BadRequestError"
| "exception_for Conflict = ConflictError"
| "exception_for DeserializationFailure = DeserializationError"
| "exception_for Inactive = InactiveError"
| "exception_for InUse = InUseError"
| "exception_for InvalidRange = InvalidRangeError"
| "exception_for NotEmpty = NotEmptyError"
| "exception_for NotFound = ResourceNotFoundError"
| "exception_for InternalError = ServerError"
| "exception_for TimedOut = TimeoutError"

text \<open>
  What one transport invocation gives: a transport-level failure (connection failure,
  timeout, any network error without an HTTP status), or an HTTP response, whose body
  is empty, a JSON document, or not JSON.
\<close>

datatype body = EmptyBody | JsonBody json | NotJson

record response =
  resp_status :: nat
  resp_body :: body

datatype outcome = TransportError string | Reply response

definition is_2xx :: "nat \<Rightarrow> bool" where
  "is_2xx s \<longleftrightarrow> 200 \<le> s \<and> s < 300"

text \<open>
  Modelled from the spec: the \<open>{Error: <code>, Description: <text>}\<close> pair of an error
  response (section 6), if the body has that shape.
\<close>

definition error_record :: "body \<Rightarrow> (string \<times> string) option" where
  "error_record b =
     (case b of
        JsonBody (JObj kv) \<Rightarrow>
          (case (map_of kv ''Error'', map_of kv ''Description'') of
             (Some (JStr code), Some (JStr d)) \<Rightarrow> Some (code, d)
           | _ \<Rightarrow> None)
      | _ \<Rightarrow> None)"

text \<open>
  Modelled from the spec: the error mapper of section 4.3 (base.py and exceptions.py are
  missing). \<open>code_of\<close> reads a code of the wire into the enumeration (\<open>None\<close> for a
  code it does not know), and \<open>detail\<close> is the text the spec leaves open (the rest of
  an "Unexpected error: ..." message). A recognised code raises its exception with the
  description as the message; an unrecognised code or a body without the pair raises the
  generic exception, except that a 5xx status without a pair is a \<open>ServerError\<close>.
\<close>

definition handle_error_response ::
  "(string \<Rightarrow> api_error option) \<Rightarrow> (response \<Rightarrow> string) \<Rightarrow> response \<Rightarrow> exc"
where
  "handle_error_response code_of detail resp =
     (case error_record (resp_body resp) of
        Some (code, d) \<Rightarrow>
          (case code_of code of
             Some k \<Rightarrow> Exc (exception_for k) d
           | None \<Rightarrow> Exc SdkException (''Unexpected error: '' @ detail resp))
      | None \<Rightarrow>
          if 500 \<le> resp_status resp \<and> resp_status resp < 600
          then Exc ServerError (detail resp)
          else Exc SdkException (''Unexpected error: '' @ detail resp))"

text \<open>
  Modelled from the spec: a 2xx response (section 4.2). An empty body is an absent
  result, a JSON body is returned decoded, any other body is a Deserialization error.
\<close>

definition handle_success :: "(response \<Rightarrow> string) \<Rightarrow> response \<Rightarrow> exc + json option" where
  "handle_success detail resp =
     (case resp_body resp of
        EmptyBody \<Rightarrow> Inr None
      | JsonBody j \<Rightarrow> Inr (Some j)
      | NotJson \<Rightarrow> Inl (Exc DeserializationError (detail resp)))"

text \<open>
  Modelled from the spec: the message of retry exhaustion states the number of attempts
  made (section 4.2; base.py is missing). The words before and after the number, which the
  spec leaves open, are the parameters \<open>before\<close> and \<open>after\<close>.
\<close>

definition exhausted_message :: "string \<Rightarrow> string \<Rightarrow> nat \<Rightarrow> string" where
  "exhausted_message before after made = before @ str_of_nat made @ after"

text \<open>
  Modelled from the spec: the attempt loop of \<open>BaseClient.request\<close> (section 4.2; base.py
  is missing). \<open>transport i\<close> is what the \<open>i\<close>-th transport invocation of the call
  gives. A transport failure leads to the next attempt while attempts remain; a response
  ends the call. The result comes with the number of transport invocations made.
\<close>

fun attempts ::
  "(string \<Rightarrow> api_error option) \<Rightarrow> (response \<Rightarrow> string) \<Rightarrow> string \<Rightarrow> string
   \<Rightarrow> (nat \<Rightarrow> outcome) \<Rightarrow> nat \<Rightarrow> nat \<Rightarrow> (exc + json option) \<times> nat"
where
  "attempts code_of detail before after transport 0 made =
     (Inl (Exc SdkException (exhausted_message before after made)), made)"
| "attempts code_of detail before after transport (Suc left) made =
     (case transport made of
        TransportError e \<Rightarrow> attempts code_of detail before after transport left (Suc made)
      | Reply resp \<Rightarrow>
          (if is_2xx (resp_status resp) then handle_success detail resp
           else Inl (handle_error_response code_of detail resp),
           Suc made))"

text \<open>
  Modelled from the spec: \<open>N = configured retry count + 1\<close> attempts in total
  (section 4.2).
\<close>

definition request ::
  "client \<Rightarrow> (string \<Rightarrow> api_error option) \<Rightarrow> (response \<Rightarrow> string) \<Rightarrow> string \<Rightarrow> string
   \<Rightarrow> (nat \<Rightarrow> outcome) \<Rightarrow> (exc + json option) \<times> nat"
where
  "request c code_of detail before after transport =
     attempts code_of detail before after transport (nat (retries c) + 1) 0"

section \<open>Content types\<close>

lemma map_of_mime_unknown:
  "e \<notin> set [''.pdf'', ''.png'', ''.jpg'', ''.jpeg'', ''.docx'', ''.doc'', ''.xlsx'', ''.xls'',
      ''.pptx'', ''.ppt'', ''.txt'', ''.html'', ''.htm'', ''.csv'', ''.json'', ''.xml'', ''.md'', ''.rtf'']
   \<Longrightarrow> map_of mime_map e = None"
  by (simp add: mime_map_def)

lemma typedetect_url: "get_url_base ''typedetect'' [] [] = ''typedetect''"
  by (simp add: get_url_base_def urlencode_def)

lemma docx_suffix: "lower (path_suffix ''report.docx'') = ''.docx''"
  by code_simp

lemma docx_name: "path_name ''report.docx'' = ''report.docx''"
  by code_simp

lemma content_type_known:
  "map_of mime_map (lower (path_suffix fn)) = Some m \<Longrightarrow> content_type_for fn = m"
  by (simp add: content_type_for_def)

lemma content_type_unknown:
  "lower (path_suffix fn) \<notin> set [''.pdf'', ''.png'', ''.jpg'', ''.jpeg'', ''.docx'', ''.doc'',
      ''.xlsx'', ''.xls'', ''.pptx'', ''.ppt'', ''.txt'', ''.html'', ''.htm'', ''.csv'', ''.json'',
      ''.xml'', ''.md'', ''.rtf'']
   \<Longrightarrow> content_type_for fn = ''application/octet-stream''"
  using map_of_mime_unknown [of "lower (path_suffix fn)"] by (simp add: content_type_for_def)

lemma docx_content_type:
  "content_type_for ''report.docx'' =
     ''application/vnd.openxmlformats-officedocument.wordprocessingml.document''"
  by (rule content_type_known) (simp add: docx_suffix mime_map_def)

text \<open>
  C7. The content type is a function of the file name alone: the lower-cased suffix of
  the name is looked up in the fixed table, each of its eighteen suffixes giving its MIME
  type, and every other suffix gives \<open>application/octet-stream\<close>. \<open>detect_type\<close>
  on a file named \<open>report.docx\<close>, given as a path or as bytes with that file name,
  sends the wordprocessingml content type in its \<open>Content-Type\<close> header.
\<close>

theorem content_type_inference:
  "(lower (path_suffix fn) = ''.pdf'' \<longrightarrow> content_type_for fn = ''application/pdf'')
 \<and> (lower (path_suffix fn) = ''.png'' \<longrightarrow> content_type_for fn = ''image/png'')
 \<and> (lower (path_suffix fn) = ''.jpg'' \<longrightarrow> content_type_for fn = ''image/jpeg'')
 \<and> (lower (path_suffix fn) = ''.jpeg'' \<longrightarrow> content_type_for fn = ''image/jpeg'')
 \<and> (lower (path_suffix fn) = ''.docx'' \<longrightarrow> content_type_for fn =
        ''application/vnd.openxmlformats-officedocument.wordprocessingml.document'')
 \<and> (lower (path_suffix fn) = ''.doc'' \<longrightarrow> content_type_for fn = ''application/msword'')
 \<and> (lower (path_suffix fn) = ''.xlsx'' \<longrightarrow> content_type_for fn =
        ''application/vnd.openxmlformats-officedocument.spreadsheetml.sheet'')
 \<and> (lower (path_suffix fn) = ''.xls'' \<longrightarrow> content_type_for fn = ''application/vnd.ms-excel'')
 \<and> (lower (path_suffix fn) = ''.pptx'' \<longrightarrow> content_type_for fn =
        ''application/vnd.openxmlformats-officedocument.presentationml.presentation'')
 \<and> (lower (path_suffix fn) = ''.ppt'' \<longrightarrow> content_type_for fn = ''application/vnd.ms-powerpoint'')
 \<and> (lower (path_suffix fn) = ''.txt'' \<longrightarrow> content_type_for fn = ''text/plain'')
 \<and> (lower (path_suffix fn) = ''.html'' \<longrightarrow> content_type_for fn = ''text/html'')
 \<and> (lower (path_suffix fn) = ''.htm'' \<longrightarrow> content_type_for fn = ''text/html'')
 \<and> (lower (path_suffix fn) = ''.csv'' \<longrightarrow> content_type_for fn = ''text/csv'')
 \<and> (lower (path_suffix fn) = ''.json'' \<longrightarrow> content_type_for fn = ''application/json'')
 \<and> (lower (path_suffix fn) = ''.xml'' \<longrightarrow> content_type_for fn = ''application/xml'')
 \<and> (lower (path_suffix fn) = ''.md'' \<longrightarrow> content_type_for fn = ''text/markdown'')
 \<and> (lower (path_suffix fn) = ''.rtf'' \<longrightarrow> content_type_for fn = ''application/rtf'')
 \<and> (lower (path_suffix fn) \<notin> set [''.pdf'', ''.png'', ''.jpg'', ''.jpeg'', ''.docx'', ''.doc'',
        ''.xlsx'', ''.xls'', ''.pptx'', ''.ppt'', ''.txt'', ''.html'', ''.htm'', ''.csv'', ''.json'',
        ''.xml'', ''.md'', ''.rtf'']
      \<longrightarrow> content_type_for fn = ''application/octet-stream'')
 \<and> (fs ''report.docx'' = Some (RegularFile d) \<longrightarrow>
      detect_type (Some c) fs send (PathInput ''report.docx'') None =
        (let req = \<lparr>req_method = ''POST'', req_url = ''typedetect'', req_content = Some d,
                    req_headers = [(''Content-Type'',
                      ''application/vnd.openxmlformats-officedocument.wordprocessingml.document'')]\<rparr>
         in (send c req, [FileOpened ''report.docx'', Sent req, FileClosed ''report.docx''])))
 \<and> detect_type (Some c) fs send (BytesInput b) (Some ''report.docx'') =
        (let req = \<lparr>req_method = ''POST'', req_url = ''typedetect'', req_content = Some b,
                    req_headers = [(''Content-Type'',
                      ''application/vnd.openxmlformats-officedocument.wordprocessingml.document'')]\<rparr>
         in (send c req, [Sent req]))"
proof (intro conjI impI)
  show "detect_type (Some c) fs send (BytesInput b) (Some ''report.docx'') =
        (let req = \<lparr>req_method = ''POST'', req_url = ''typedetect'', req_content = Some b,
                    req_headers = [(''Content-Type'',
                      ''application/vnd.openxmlformats-officedocument.wordprocessingml.document'')]\<rparr>
         in (send c req, [Sent req]))"
    by (simp add: detect_type_def get_client_def prepare_file_input_def send_file_def
          read_from_start_def opened_def closed_def typedetect_url docx_content_type)
next
  assume "fs ''report.docx'' = Some (RegularFile d)"
  then show "detect_type (Some c) fs send (PathInput ''report.docx'') None =
        (let req = \<lparr>req_method = ''POST'', req_url = ''typedetect'', req_content = Some d,
                    req_headers = [(''Content-Type'',
                      ''application/vnd.openxmlformats-officedocument.wordprocessingml.document'')]\<rparr>
         in (send c req, [FileOpened ''report.docx'', Sent req, FileClosed ''report.docx'']))"
    by (simp add: detect_type_def get_client_def prepare_file_input_def send_file_def
          read_from_start_def opened_def closed_def typedetect_url docx_name docx_content_type)
qed (simp_all add: content_type_unknown, (rule content_type_known, simp add: mime_map_def)+)

theorem content_type_inference_witness:
  "content_type_for ''photo.JPG'' = ''image/jpeg''
 \<and> content_type_for ''archive.zip'' = ''application/octet-stream''
 \<and> content_type_for ''Makefile'' = ''application/octet-stream''
 \<and> fst (detect_type (Some \<lparr>base_url = ''http://test-api.com'', timeout = 10, retries = 3\<rparr>)
        ((\<lambda>p. None)(''report.docx'' := Some (RegularFile [80, 75])))
        (\<lambda>c r. Inr None) (PathInput ''report.docx'') None) = Inr None"
proof -
  have a: "lower (path_suffix ''photo.JPG'') = ''.jpg''" by code_simp
  have b: "lower (path_suffix ''archive.zip'') = ''.zip''" by code_simp
  have c: "lower (path_suffix ''Makefile'') = []" by code_simp
  show ?thesis
    using content_type_inference [of "''photo.JPG''"]
      content_type_inference [of "''archive.zip''"]
      content_type_inference [of "''Makefile''"]
      content_type_inference [of _ "(\<lambda>p. None)(''report.docx'' := Some (RegularFile [80, 75]))" "[80, 75]"
         "\<lparr>base_url = ''http://test-api.com'', timeout = 10, retries = 3\<rparr>" "\<lambda>c r. Inr None"]
    by (simp add: a b c Let_def)
qed

section \<open>Atom extraction: the URL and the format check\<close>

lemma lower_supported: "fmt \<in> set SUPPORTED_FORMATS \<Longrightarrow> lower fmt = fmt"
proof -
  have "\<forall>f \<in> set SUPPORTED_FORMATS. lower f = f" by code_simp
  then show "fmt \<in> set SUPPORTED_FORMATS \<Longrightarrow> lower fmt = fmt" by blast
qed

lemma supported_plain:
  "fmt \<in> set SUPPORTED_FORMATS \<Longrightarrow> fmt \<noteq> [] \<and> CHR ''?'' \<notin> set fmt"
  by (auto simp: SUPPORTED_FORMATS_def)

lemma url_without_flag: "fmt \<noteq> [] \<Longrightarrow> get_url_base ''atom'' [Some fmt] [] = ''atom/'' @ fmt"
  by (simp add: get_url_base_def urlencode_def)

lemma url_with_flag:
  "fmt \<noteq> [] \<Longrightarrow> get_url_base ''atom'' [Some fmt] [(''ocr'', None)] = ''atom/'' @ fmt @ ''?ocr''"
  by (simp add: get_url_base_def urlencode_def)

lemma ocr_params_cases:
  "ocr_params fmt ocr =
     (if ocr = Some True \<and> fmt \<in> {''pdf'', ''powerpoint'', ''rtf''} then [(''ocr'', None)] else [])"
  by (auto simp: ocr_params_def FORMATS_WITH_OCR_def)

lemma atom_url:
  "fmt \<noteq> [] \<Longrightarrow> get_url_base ''atom'' [Some fmt] (ocr_params fmt ocr) =
     (if ocr = Some True \<and> fmt \<in> {''pdf'', ''powerpoint'', ''rtf''}
      then ''atom/'' @ fmt @ ''?ocr'' else ''atom/'' @ fmt)"
  by (simp add: ocr_params_cases url_without_flag url_with_flag)

lemma send_file_requests:
  "read_from_start f = Inr data \<Longrightarrow>
   sent_requests (snd (send_file send c f url ct)) =
     [\<lparr>req_method = ''POST'', req_url = url, req_content = Some data,
       req_headers = [(''Content-Type'', ct)]\<rparr>]"
  by (cases f) (simp_all add: send_file_def opened_def closed_def Let_def)

lemma extract_atoms_supported:
  "lower format_type \<in> set SUPPORTED_FORMATS \<Longrightarrow>
   extract_atoms (Some c) fs send fi format_type ocr filename =
     (case prepare_file_input fs fi filename of
        Inl e \<Rightarrow> (Inl e, [])
      | Inr (f, file_name) \<Rightarrow>
          send_file send c f
            (get_url_base ''atom'' [Some (lower format_type)] (ocr_params (lower format_type) ocr))
            (case map_of MIME_TYPES (lower format_type) of
               Some m \<Rightarrow> m | None \<Rightarrow> ''application/octet-stream''))"
  by (simp add: extract_atoms_def get_client_def Let_def split: sum.splits prod.splits)

lemma extract_atoms_unsupported:
  "lower format_type \<notin> set SUPPORTED_FORMATS \<Longrightarrow>
   extract_atoms (Some c) fs send fi format_type ocr filename =
     (Inl (unsupported_format (lower format_type)), [])"
  by (simp add: extract_atoms_def get_client_def Let_def)

lemma supported_listing:
  "join '', '' SUPPORTED_FORMATS =
     ''csv, excel, html, json, markdown, ocr, pdf, png, powerpoint, rtf, text, word, xml''"
  by (simp add: SUPPORTED_FORMATS_def)

text \<open>
  C3. For a supported format and a file input that normalizes and can be read, the one
  request \<open>extract_atoms\<close> sends goes to \<open>atom/<fmt>?ocr\<close> when \<open>ocr\<close> is
  \<open>True\<close> and the format is pdf, powerpoint or rtf, and to \<open>atom/<fmt>\<close>, which has
  no query string, in every other case (\<open>ocr\<close> omitted, \<open>False\<close>, or another
  format). The SDK is configured.
\<close>

theorem extract_atoms_url:
  assumes "fmt \<in> set SUPPORTED_FORMATS"
    and "prepare_file_input fs fi filename = Inr (f, file_name)"
    and "read_from_start f = Inr data"
  shows "map req_url (sent_requests (snd (extract_atoms (Some c) fs send fi fmt ocr filename))) =
           [if ocr = Some True \<and> fmt \<in> {''pdf'', ''powerpoint'', ''rtf''}
            then ''atom/'' @ fmt @ ''?ocr'' else ''atom/'' @ fmt]
         \<and> CHR ''?'' \<notin> set (''atom/'' @ fmt)"
proof -
  from assms(1) have l: "lower fmt = fmt" and ne: "fmt \<noteq> []" and q: "CHR ''?'' \<notin> set fmt"
    by (simp_all add: lower_supported supported_plain)
  from assms(1) l have "lower fmt \<in> set SUPPORTED_FORMATS" by simp
  then have "extract_atoms (Some c) fs send fi fmt ocr filename =
      send_file send c f (get_url_base ''atom'' [Some fmt] (ocr_params fmt ocr))
        (case map_of MIME_TYPES fmt of Some m \<Rightarrow> m | None \<Rightarrow> ''application/octet-stream'')"
    by (simp add: extract_atoms_supported assms(2) l)
  then show ?thesis
    using q by (simp add: send_file_requests [OF assms(3)] atom_url [OF ne])
qed

theorem extract_atoms_url_witness:
  "map req_url (sent_requests (snd (extract_atoms (Some \<lparr>base_url = ''http://test-api.com'', timeout = 10, retries = 3\<rparr>)
      (\<lambda>p. None) (\<lambda>c r. Inr None) (BytesInput [37, 80, 68, 70]) ''pdf'' (Some True) (Some ''sample.pdf''))))
     = [''atom/pdf?ocr'']
 \<and> map req_url (sent_requests (snd (extract_atoms (Some \<lparr>base_url = ''http://test-api.com'', timeout = 10, retries = 3\<rparr>)
      (\<lambda>p. None) (\<lambda>c r. Inr None) (BytesInput [37, 80, 68, 70]) ''pdf'' (Some False) (Some ''sample.pdf''))))
     = [''atom/pdf'']
 \<and> map req_url (sent_requests (snd (extract_atoms (Some \<lparr>base_url = ''http://test-api.com'', timeout = 10, retries = 3\<rparr>)
      (\<lambda>p. None) (\<lambda>c r. Inr None) (BytesInput [37, 80, 68, 70]) ''csv'' (Some True) (Some ''sample.csv''))))
     = [''atom/csv'']"
proof -
  have s1: "''pdf'' \<in> set SUPPORTED_FORMATS" and s2: "''csv'' \<in> set SUPPORTED_FORMATS"
    by (simp_all add: SUPPORTED_FORMATS_def)
  have p1: "prepare_file_input (\<lambda>p. None) (BytesInput [37, 80, 68, 70]) (Some ''sample.pdf'')
      = Inr (Buffer [37, 80, 68, 70], Some ''sample.pdf'')"
    and p2: "prepare_file_input (\<lambda>p. None) (BytesInput [37, 80, 68, 70]) (Some ''sample.csv'')
      = Inr (Buffer [37, 80, 68, 70], Some ''sample.csv'')"
    by (simp_all add: prepare_file_input_def)
  have r: "read_from_start (Buffer [37, 80, 68, 70]) = Inr [37, 80, 68, 70]"
    by (simp add: read_from_start_def)
  show ?thesis
    using extract_atoms_url [OF s1 p1 r, of "\<lparr>base_url = ''http://test-api.com'', timeout = 10, retries = 3\<rparr>"
        "\<lambda>c r. Inr None" "Some True"]
      extract_atoms_url [OF s1 p1 r, of "\<lparr>base_url = ''http://test-api.com'', timeout = 10, retries = 3\<rparr>"
        "\<lambda>c r. Inr None" "Some False"]
      extract_atoms_url [OF s2 p2 r, of "\<lparr>base_url = ''http://test-api.com'', timeout = 10, retries = 3\<rparr>"
        "\<lambda>c r. Inr None" "Some True"]
    by simp
qed


lemma prepare_not_unsupported:
  "prepare_file_input fs fi filename \<noteq> Inl (unsupported_format x)"
  by (auto simp: prepare_file_input_def unsupported_format_def unexpected_type_def Let_def
      split: file_input.splits option.splits fs_entry.splits list.splits stream_class.splits
        name_attr.splits)

lemma send_file_not_unsupported:
  "\<forall>r. send c r \<noteq> Inl (unsupported_format x) \<Longrightarrow>
   fst (send_file send c f url ct) \<noteq> Inl (unsupported_format x)"
  by (auto simp: send_file_def read_from_start_def unsupported_format_def Let_def
      split: sum.splits file_obj.splits if_splits)

text \<open>
  C4. With the SDK configured: a format whose lower-cased form is not among the thirteen
  supported ones makes \<open>extract_atoms\<close> raise the Validation error that lists them,
  whatever the file input is and with no file opened and no request sent. A format whose
  lower-cased form is supported passes the check: a failing normalization is what the
  call raises, a file input that normalizes and can be read leads to one request, and
  unless the request itself comes back with it, the unsupported-format error is not
  raised.
\<close>

theorem format_validation:
  "(lower format_type \<notin> set SUPPORTED_FORMATS \<longrightarrow>
      extract_atoms (Some c) fs send fi format_type ocr filename =
        (Inl (Exc ValidationError
           (''Unsupported format: '' @ lower format_type @
            ''. Supported formats: csv, excel, html, json, markdown, ocr, pdf, png, powerpoint, rtf, text, word, xml'')),
         []))
 \<and> (lower format_type \<in> set SUPPORTED_FORMATS \<longrightarrow>
      (\<forall>e. prepare_file_input fs fi filename = Inl e \<longrightarrow>
           extract_atoms (Some c) fs send fi format_type ocr filename = (Inl e, []))
    \<and> (\<forall>f n data. prepare_file_input fs fi filename = Inr (f, n) \<longrightarrow>
           read_from_start f = Inr data \<longrightarrow>
           length (sent_requests (snd (extract_atoms (Some c) fs send fi format_type ocr filename))) = 1)
    \<and> ((\<forall>r. send c r \<noteq> Inl (unsupported_format (lower format_type))) \<longrightarrow>
           fst (extract_atoms (Some c) fs send fi format_type ocr filename)
             \<noteq> Inl (unsupported_format (lower format_type))))"
proof (intro conjI impI allI)
  assume "lower format_type \<notin> set SUPPORTED_FORMATS"
  then show "extract_atoms (Some c) fs send fi format_type ocr filename =
        (Inl (Exc ValidationError
           (''Unsupported format: '' @ lower format_type @
            ''. Supported formats: csv, excel, html, json, markdown, ocr, pdf, png, powerpoint, rtf, text, word, xml'')),
         [])"
    by (simp add: extract_atoms_unsupported unsupported_format_def supported_listing)
next
  fix e
  assume "lower format_type \<in> set SUPPORTED_FORMATS" "prepare_file_input fs fi filename = Inl e"
  then show "extract_atoms (Some c) fs send fi format_type ocr filename = (Inl e, [])"
    by (simp add: extract_atoms_supported)
next
  fix f n data
  assume "lower format_type \<in> set SUPPORTED_FORMATS" "prepare_file_input fs fi filename = Inr (f, n)"
    "read_from_start f = Inr data"
  then show "length (sent_requests (snd (extract_atoms (Some c) fs send fi format_type ocr filename))) = 1"
    by (simp add: extract_atoms_supported send_file_requests)
next
  assume s: "lower format_type \<in> set SUPPORTED_FORMATS"
    and n: "\<forall>r. send c r \<noteq> Inl (unsupported_format (lower format_type))"
  show "fst (extract_atoms (Some c) fs send fi format_type ocr filename)
      \<noteq> Inl (unsupported_format (lower format_type))"
  proof (cases "prepare_file_input fs fi filename")
    case (Inl e)
    with s prepare_not_unsupported [of fs fi filename "lower format_type"] show ?thesis
      by (simp add: extract_atoms_supported)
  next
    case (Inr p)
    with s n send_file_not_unsupported [of send c "lower format_type"] show ?thesis
      by (cases p) (simp add: extract_atoms_supported)
  qed
qed

theorem format_validation_witness:
  "extract_atoms (Some \<lparr>base_url = ''http://test-api.com'', timeout = 10, retries = 3\<rparr>) (\<lambda>p. None) (\<lambda>c r. Inr None)
     (PathInput ''/nonexistent/file.txt'') ''Unsupported-Format'' None None =
     (Inl (Exc ValidationError
        ''Unsupported format: unsupported-format. Supported formats: csv, excel, html, json, markdown, ocr, pdf, png, powerpoint, rtf, text, word, xml''),
      [])
 \<and> extract_atoms (Some \<lparr>base_url = ''http://test-api.com'', timeout = 10, retries = 3\<rparr>) (\<lambda>p. None) (\<lambda>c r. Inr None)
     (PathInput ''/nonexistent/file.txt'') ''PDF'' None None =
     (Inl (Exc FileNotFoundError ''File does not exist: /nonexistent/file.txt''), [])
 \<and> length (sent_requests (snd (extract_atoms (Some \<lparr>base_url = ''http://test-api.com'', timeout = 10, retries = 3\<rparr>)
     (\<lambda>p. None) (\<lambda>c r. Inr None) (BytesInput [1, 2]) ''Pdf'' None (Some ''a.pdf'')))) = 1"
proof -
  have u: "lower ''Unsupported-Format'' = ''unsupported-format''" by code_simp
  have un: "''unsupported-format'' \<notin> set SUPPORTED_FORMATS" by (simp add: SUPPORTED_FORMATS_def)
  have p: "lower ''PDF'' = ''pdf''" "lower ''Pdf'' = ''pdf''" by code_simp+
  have ps: "''pdf'' \<in> set SUPPORTED_FORMATS" by (simp add: SUPPORTED_FORMATS_def)
  have nf: "prepare_file_input (\<lambda>p. None) (PathInput ''/nonexistent/file.txt'') None =
      Inl (Exc FileNotFoundError ''File does not exist: /nonexistent/file.txt'')"
    by (simp add: prepare_file_input_def)
  have ok: "prepare_file_input (\<lambda>p. None) (BytesInput [1, 2]) (Some ''a.pdf'') = Inr (Buffer [1, 2], Some ''a.pdf'')"
    by (simp add: prepare_file_input_def)
  have r: "read_from_start (Buffer [1, 2]) = Inr [1, 2]" by (simp add: read_from_start_def)
  show ?thesis
    using format_validation [of "''Unsupported-Format''" "\<lparr>base_url = ''http://test-api.com'', timeout = 10, retries = 3\<rparr>"
        "\<lambda>p. None" "\<lambda>c r. Inr None" "PathInput ''/nonexistent/file.txt''" None None]
      format_validation [of "''PDF''" "\<lparr>base_url = ''http://test-api.com'', timeout = 10, retries = 3\<rparr>"
        "\<lambda>p. None" "\<lambda>c r. Inr None" "PathInput ''/nonexistent/file.txt''" None None]
      format_validation [of "''Pdf''" "\<lparr>base_url = ''http://test-api.com'', timeout = 10, retries = 3\<rparr>"
        "\<lambda>p. None" "\<lambda>c r. Inr None" "BytesInput [1, 2]" None "Some ''a.pdf''"]
    by (simp add: u un p ps nf ok r)
qed

section \<open>File-input normalization\<close>

lemma unexpected_type_text:
  "unexpected_type ty =
     Exc ValidationError
       (''file_input must be str (file path), bytes, or file-like object, got <class ''
          @ [CHR 0x27] @ ty @ [CHR 0x27] @ ''>'')"
  by (simp add: unexpected_type_def type_repr_def)

lemma detect_type_prepare_fails:
  "prepare_file_input fs fi filename = Inl e \<Longrightarrow>
   detect_type (Some c) fs send fi filename = (Inl e, [])"
  by (simp add: detect_type_def get_client_def)

text \<open>
  C5 as stated fails for a path that does not exist and whose name is longer than the
  file system allows: on a file system without any file, where looking up a name of more
  than 255 characters raises \<open>OSError\<close>, normalizing a path of 300 characters raises
  that \<open>OSError\<close> and not the SDK's \<open>FileNotFoundError\<close>.
\<close>

theorem normalization_failures_counterexample:
  "prepare_file_input
     (\<lambda>p. if 255 < length p
          then Some (Unreachable (''[Errno 36] File name too long: '' @ [CHR 0x27] @ p @ [CHR 0x27]))
          else None)
     (PathInput (replicate 300 (CHR ''a''))) None =
     Inl (Exc OSError
       (''[Errno 36] File name too long: '' @ [CHR 0x27] @ replicate 300 (CHR ''a'') @ [CHR 0x27]))
 \<and> prepare_file_input
     (\<lambda>p. if 255 < length p
          then Some (Unreachable (''[Errno 36] File name too long: '' @ [CHR 0x27] @ p @ [CHR 0x27]))
          else None)
     (PathInput (replicate 300 (CHR ''a''))) None \<noteq>
     Inl (Exc FileNotFoundError (''File does not exist: '' @ replicate 300 (CHR ''a'')))"
  by (simp add: prepare_file_input_def)

text \<open>
  C5, amended. How normalization fails: a path that \<open>Path.exists\<close> reports as absent
  raises the SDK's \<open>FileNotFoundError\<close>, and a path whose lookup itself raises an
  \<open>OSError\<close> raises that error; a path that exists and is not a regular file raises a
  Validation error; bytes with no file name, or an empty one, raise a Validation error; a
  stream with no file name given whose \<open>name\<close> attribute is absent or is \<open>file\<close>
  raises a Validation error; a value of any other type raises a Validation error that
  reports the type. Whenever normalization fails, \<open>detect_type\<close> and
  \<open>extract_atoms\<close> (format supported, SDK configured) raise that error with no file
  opened and no request sent.
\<close>

theorem normalization_failures:
  "(fs p = None \<longrightarrow>
      prepare_file_input fs (PathInput p) filename =
        Inl (Exc FileNotFoundError (''File does not exist: '' @ p)))
 \<and> (fs p = Some (Unreachable err) \<longrightarrow>
      prepare_file_input fs (PathInput p) filename = Inl (Exc OSError err))
 \<and> (fs p = Some NotRegular \<longrightarrow>
      prepare_file_input fs (PathInput p) filename =
        Inl (Exc ValidationError (''Path is not a file: '' @ p)))
 \<and> (filename = None \<or> filename = Some [] \<longrightarrow>
      prepare_file_input fs (BytesInput b) filename =
        Inl (Exc ValidationError ''filename is required when file_input is bytes''))
 \<and> ((filename = None \<or> filename = Some []) \<and>
     (stream_name s = NoName \<or> stream_name s = Name ''file'') \<longrightarrow>
      (\<exists>m. prepare_file_input fs (StreamInput s) filename = Inl (Exc ValidationError m))
    \<and> ((stream_class s = BytesIO \<or> stream_class s = BinaryIO) \<longrightarrow>
        prepare_file_input fs (StreamInput s) filename =
          Inl (Exc ValidationError
            ''filename is required when file_input is a file-like object without a name'')))
 \<and> prepare_file_input fs (OtherInput ty) filename =
      Inl (Exc ValidationError
        (''file_input must be str (file path), bytes, or file-like object, got <class ''
           @ [CHR 0x27] @ ty @ [CHR 0x27] @ ''>''))
 \<and> (\<forall>e. prepare_file_input fs fi filename = Inl e \<longrightarrow>
        detect_type (Some c) fs send fi filename = (Inl e, [])
      \<and> (lower format_type \<in> set SUPPORTED_FORMATS \<longrightarrow>
          extract_atoms (Some c) fs send fi format_type ocr filename = (Inl e, [])))"
proof (intro conjI impI allI)
  assume "(filename = None \<or> filename = Some []) \<and>
     (stream_name s = NoName \<or> stream_name s = Name ''file'')"
  then show "\<exists>m. prepare_file_input fs (StreamInput s) filename = Inl (Exc ValidationError m)"
    by (cases "stream_class s") (auto simp: prepare_file_input_def unexpected_type_def)
next
  assume "(filename = None \<or> filename = Some []) \<and>
     (stream_name s = NoName \<or> stream_name s = Name ''file'')"
    and "stream_class s = BytesIO \<or> stream_class s = BinaryIO"
  then show "prepare_file_input fs (StreamInput s) filename =
          Inl (Exc ValidationError
            ''filename is required when file_input is a file-like object without a name'')"
    by (auto simp: prepare_file_input_def)
qed (auto simp: prepare_file_input_def unexpected_type_text detect_type_prepare_fails
       extract_atoms_supported)

theorem normalization_failures_witness:
  "prepare_file_input
     (\<lambda>p. if p = ''/tmp'' then Some NotRegular
          else if 255 < length p then Some (Unreachable ''[Errno 36] File name too long'')
          else None)
     (PathInput ''/nonexistent/file.txt'') None =
     Inl (Exc FileNotFoundError ''File does not exist: /nonexistent/file.txt'')
 \<and> prepare_file_input
     (\<lambda>p. if p = ''/tmp'' then Some NotRegular
          else if 255 < length p then Some (Unreachable ''[Errno 36] File name too long'')
          else None)
     (PathInput (replicate 300 (CHR ''a''))) None =
     Inl (Exc OSError ''[Errno 36] File name too long'')
 \<and> prepare_file_input
     (\<lambda>p. if p = ''/tmp'' then Some NotRegular
          else if 255 < length p then Some (Unreachable ''[Errno 36] File name too long'')
          else None)
     (PathInput ''/tmp'') None = Inl (Exc ValidationError ''Path is not a file: /tmp'')
 \<and> prepare_file_input
     (\<lambda>p. if p = ''/tmp'' then Some NotRegular
          else if 255 < length p then Some (Unreachable ''[Errno 36] File name too long'')
          else None)
     (BytesInput [1, 2]) None =
     Inl (Exc ValidationError ''filename is required when file_input is bytes'')
 \<and> prepare_file_input
     (\<lambda>p. if p = ''/tmp'' then Some NotRegular
          else if 255 < length p then Some (Unreachable ''[Errno 36] File name too long'')
          else None)
     (StreamInput \<lparr>stream_class = BytesIO, stream_name = Name ''file'', stream_data = [1, 2],
                   stream_pos = 0, stream_closed = False\<rparr>) None =
     Inl (Exc ValidationError
       ''filename is required when file_input is a file-like object without a name'')
 \<and> detect_type (Some \<lparr>base_url = ''http://test-api.com'', timeout = 10, retries = 3\<rparr>)
     (\<lambda>p. if p = ''/tmp'' then Some NotRegular
          else if 255 < length p then Some (Unreachable ''[Errno 36] File name too long'')
          else None)
     (\<lambda>c r. Inr None) (PathInput ''/nonexistent/file.txt'') None =
     (Inl (Exc FileNotFoundError ''File does not exist: /nonexistent/file.txt''), [])
 \<and> extract_atoms (Some \<lparr>base_url = ''http://test-api.com'', timeout = 10, retries = 3\<rparr>)
     (\<lambda>p. if p = ''/tmp'' then Some NotRegular
          else if 255 < length p then Some (Unreachable ''[Errno 36] File name too long'')
          else None)
     (\<lambda>c r. Inr None) (PathInput ''/nonexistent/file.txt'') ''pdf'' None None =
     (Inl (Exc FileNotFoundError ''File does not exist: /nonexistent/file.txt''), [])"
proof -
  have l: "lower ''pdf'' = ''pdf''" by code_simp
  have s: "''pdf'' \<in> set SUPPORTED_FORMATS" by (simp add: SUPPORTED_FORMATS_def)
  let ?fs = "\<lambda>p. if p = ''/tmp'' then Some NotRegular
          else if 255 < length p then Some (Unreachable ''[Errno 36] File name too long'')
          else None"
  have long: "replicate 300 (CHR ''a'') \<noteq> ''/tmp''"
  proof
    assume "replicate 300 (CHR ''a'') = ''/tmp''"
    then have "length (replicate 300 (CHR ''a'')) = length ''/tmp''" by (rule arg_cong)
    then show False by simp
  qed
  show ?thesis
    using normalization_failures [where fs = ?fs
        and p = "''/nonexistent/file.txt''" and filename = None
        and s = "\<lparr>stream_class = BytesIO, stream_name = Name ''file'', stream_data = [1, 2],
           stream_pos = 0, stream_closed = False\<rparr>"
        and b = "[1, 2]" and fi = "PathInput ''/nonexistent/file.txt''"
        and c = "\<lparr>base_url = ''http://test-api.com'', timeout = 10, retries = 3\<rparr>"
        and send = "\<lambda>c r. Inr None"
        and format_type = "''pdf''" and ocr = None]
      normalization_failures [where fs = ?fs and p = "''/tmp''" and filename = None]
      normalization_failures [where fs = ?fs and p = "replicate 300 (CHR ''a'')"
        and err = "''[Errno 36] File name too long''" and filename = None]
    by (simp add: l s long)
qed

text \<open>
  C6, at the input where the code departs from it: an open file handle, which is an
  \<open>_io.BufferedReader\<close> and neither an \<open>io.BytesIO\<close> nor an instance of
  \<open>typing.BinaryIO\<close>, is refused with the Validation error for an unexpected type,
  whether or not a file name is given, and \<open>extract_atoms_pdf\<close> on it sends nothing.
\<close>

theorem open_file_handle_rejected:
  "prepare_file_input fs
     (StreamInput \<lparr>stream_class = OtherIO ''_io.BufferedReader'', stream_name = Name ''file.pdf'',
                   stream_data = d, stream_pos = 0, stream_closed = False\<rparr>) filename =
     Inl (Exc ValidationError
       ''file_input must be str (file path), bytes, or file-like object, got <class '_io.BufferedReader'>'')
 \<and> extract_atoms_pdf (Some c) fs send
     (StreamInput \<lparr>stream_class = OtherIO ''_io.BufferedReader'', stream_name = Name ''file.pdf'',
                   stream_data = d, stream_pos = 0, stream_closed = False\<rparr>) (Some True) None =
     (Inl (Exc ValidationError
       ''file_input must be str (file path), bytes, or file-like object, got <class '_io.BufferedReader'>''),
      [])"
proof -
  have l: "lower ''pdf'' = ''pdf''" by code_simp
  have s: "''pdf'' \<in> set SUPPORTED_FORMATS" by (simp add: SUPPORTED_FORMATS_def)
  have p: "prepare_file_input fs
     (StreamInput \<lparr>stream_class = OtherIO ''_io.BufferedReader'', stream_name = Name ''file.pdf'',
                   stream_data = d, stream_pos = 0, stream_closed = False\<rparr>) filename =
     Inl (Exc ValidationError
       ''file_input must be str (file path), bytes, or file-like object, got <class '_io.BufferedReader'>'')"
    for filename
    by (simp add: prepare_file_input_def unexpected_type_text)
  show ?thesis
    by (simp add: p extract_atoms_pdf_def AtomExtraction_extract_atoms_def
        extract_atoms_supported l s)
qed

lemma prepare_stream_accepted:
  assumes "stream_class s = BytesIO \<or> stream_class s = BinaryIO"
    and "(\<exists>c cs. filename = Some (c # cs)) \<or>
         ((filename = None \<or> filename = Some []) \<and> (\<exists>n. stream_name s = Name n \<and> n \<noteq> ''file''))"
  shows "\<exists>name. prepare_file_input fs (StreamInput s) filename = Inr (Given s, Some name)"
  using assms by (auto simp: prepare_file_input_def)

text \<open>
  What holds of C6: an open stream that is an \<open>io.BytesIO\<close> or derives from
  \<open>typing.BinaryIO\<close>, with a non-empty file name given or a \<open>name\<close> attribute
  other than \<open>file\<close>, is accepted and rewound, and the payload sent is its whole
  content, wherever its position was.
\<close>

theorem accepted_stream_payload:
  assumes "stream_class s = BytesIO \<or> stream_class s = BinaryIO"
    and "\<not> stream_closed s"
    and "(\<exists>c cs. filename = Some (c # cs)) \<or>
         ((filename = None \<or> filename = Some []) \<and> (\<exists>n. stream_name s = Name n \<and> n \<noteq> ''file''))"
    and "lower format_type \<in> set SUPPORTED_FORMATS"
  shows "stream_pos (seek0 s) = 0
       \<and> map req_content (sent_requests (snd (extract_atoms (Some c) fs send (StreamInput s)
             format_type ocr filename))) = [Some (stream_data s)]
       \<and> map req_content (sent_requests (snd (detect_type (Some c) fs send (StreamInput s)
             filename))) = [Some (stream_data s)]"
proof -
  from prepare_stream_accepted [OF assms(1) assms(3)]
  obtain name where p: "prepare_file_input fs (StreamInput s) filename = Inr (Given s, Some name)"
    by blast
  from assms(2) have r: "read_from_start (Given s) = Inr (stream_data s)"
    by (simp add: read_from_start_def read_all_def seek0_def)
  show ?thesis
    using assms(4)
    by (simp add: seek0_def extract_atoms_supported detect_type_def get_client_def p
        send_file_requests [OF r])
qed

theorem accepted_stream_payload_witness:
  "map req_content (sent_requests (snd (extract_atoms (Some \<lparr>base_url = ''http://test-api.com'', timeout = 10, retries = 3\<rparr>)
      (\<lambda>p. None) (\<lambda>c r. Inr None)
      (StreamInput \<lparr>stream_class = BytesIO, stream_name = Name ''test.txt'', stream_data = [1, 2, 3],
                    stream_pos = 2, stream_closed = False\<rparr>) ''text'' None None)))
     = [Some [1, 2, 3]]"
proof -
  have l: "lower ''text'' = ''text''" by code_simp
  have s: "''text'' \<in> set SUPPORTED_FORMATS" by (simp add: SUPPORTED_FORMATS_def)
  show ?thesis
    using accepted_stream_payload [where s = "\<lparr>stream_class = BytesIO, stream_name = Name ''test.txt'',
        stream_data = [1, 2, 3], stream_pos = 2, stream_closed = False\<rparr>" and filename = None
        and format_type = "''text''" and c = "\<lparr>base_url = ''http://test-api.com'', timeout = 10, retries = 3\<rparr>"
        and fs = "\<lambda>p. None" and send = "\<lambda>c r. Inr None" and ocr = None]
    by (simp add: l s)
qed

text \<open>
  A stream whose \<open>name\<close> is \<open>None\<close>, as for a class that derives from
  \<open>typing.BinaryIO\<close> without a name of its own, is accepted when no file name is given:
  \<open>extract_atoms\<close> sends its content, and \<open>detect_type\<close>, which needs the file name
  for the content type, raises \<open>TypeError\<close> with nothing sent.
\<close>

theorem stream_named_none:
  "prepare_file_input fs
     (StreamInput \<lparr>stream_class = BinaryIO, stream_name = NameNone, stream_data = d,
                   stream_pos = n, stream_closed = False\<rparr>) None =
     Inr (Given \<lparr>stream_class = BinaryIO, stream_name = NameNone, stream_data = d,
                  stream_pos = n, stream_closed = False\<rparr>, None)
 \<and> map req_content (sent_requests (snd (extract_atoms (Some c) fs send
       (StreamInput \<lparr>stream_class = BinaryIO, stream_name = NameNone, stream_data = d,
                     stream_pos = n, stream_closed = False\<rparr>) ''pdf'' ocr None))) = [Some d]
 \<and> detect_type (Some c) fs send
       (StreamInput \<lparr>stream_class = BinaryIO, stream_name = NameNone, stream_data = d,
                     stream_pos = n, stream_closed = False\<rparr>) None =
     (Inl (Exc TypeError ''expected str, bytes or os.PathLike object, not NoneType''), [])"
proof -
  have l: "lower ''pdf'' = ''pdf''" by code_simp
  have s: "''pdf'' \<in> set SUPPORTED_FORMATS" by (simp add: SUPPORTED_FORMATS_def)
  have p: "prepare_file_input fs
     (StreamInput \<lparr>stream_class = BinaryIO, stream_name = NameNone, stream_data = d,
                   stream_pos = n, stream_closed = False\<rparr>) None =
     Inr (Given \<lparr>stream_class = BinaryIO, stream_name = NameNone, stream_data = d,
                  stream_pos = n, stream_closed = False\<rparr>, None)"
    by (simp add: prepare_file_input_def)
  have r: "read_from_start (Given \<lparr>stream_class = BinaryIO, stream_name = NameNone,
      stream_data = d, stream_pos = n, stream_closed = False\<rparr>) = Inr d"
    by (simp add: read_from_start_def read_all_def seek0_def)
  show ?thesis
    by (simp add: p extract_atoms_supported l s send_file_requests [OF r] detect_type_def
        get_client_def)
qed

section \<open>Configuration\<close>

text \<open>
  C8 as stated fails: before \<open>configure\<close>, the exception is Python's built-in
  \<open>ValueError\<close>, as \<open>test_get_client_without_configuration\<close> expects, and not an
  \<open>SdkException\<close>.
\<close>

theorem not_configured_counterexample:
  "fst (AtomExtraction_extract_atoms None (\<lambda>p. None) (\<lambda>c r. Inr None) (BytesInput [1]) ''pdf'' None
         (Some ''a.pdf'')) =
     Inl (Exc ValueError ''SDK is not configured. Call 'configure' first.'')
 \<and> fst (AtomExtraction_extract_atoms None (\<lambda>p. None) (\<lambda>c r. Inr None) (BytesInput [1]) ''pdf'' None
         (Some ''a.pdf'')) \<noteq>
     Inl (Exc SdkException ''SDK is not configured. Call 'configure' first.'')"
  by (simp add: AtomExtraction_extract_atoms_def extract_atoms_def get_client_def)

lemma extract_atoms_not_configured:
  "AtomExtraction_extract_atoms None fs send fi format_type ocr filename =
     (Inl (Exc ValueError ''SDK is not configured. Call 'configure' first.''), [])"
  by (simp add: AtomExtraction_extract_atoms_def extract_atoms_def get_client_def)

text \<open>
  C8, amended. Before \<open>configure\<close> has been called, every public operation
  (the connectivity check, type detection, atom extraction and each per-format operation)
  raises \<open>ValueError\<close> with the message
  \<open>SDK is not configured. Call 'configure' first.\<close>, whatever its arguments are, with no
  file opened and no request sent.
\<close>

theorem not_configured:
  "validate_connectivity None send =
     (Inl (Exc ValueError ''SDK is not configured. Call 'configure' first.''), [])
 \<and> TypeDetection_detect_type to_float None fs send fi filename =
     (Inl (Exc ValueError ''SDK is not configured. Call 'configure' first.''), [])
 \<and> AtomExtraction_extract_atoms None fs send fi format_type ocr filename =
     (Inl (Exc ValueError ''SDK is not configured. Call 'configure' first.''), [])
 \<and> extract_atoms_csv None fs send fi filename =
     (Inl (Exc ValueError ''SDK is not configured. Call 'configure' first.''), [])
 \<and> extract_atoms_excel None fs send fi filename =
     (Inl (Exc ValueError ''SDK is not configured. Call 'configure' first.''), [])
 \<and> extract_atoms_html None fs send fi filename =
     (Inl (Exc ValueError ''SDK is not configured. Call 'configure' first.''), [])
 \<and> extract_atoms_json None fs send fi filename =
     (Inl (Exc ValueError ''SDK is not configured. Call 'configure' first.''), [])
 \<and> extract_atoms_markdown None fs send fi filename =
     (Inl (Exc ValueError ''SDK is not configured. Call 'configure' first.''), [])
 \<and> extract_atoms_ocr None fs send fi filename =
     (Inl (Exc ValueError ''SDK is not configured. Call 'configure' first.''), [])
 \<and> extract_atoms_pdf None fs send fi ocr filename =
     (Inl (Exc ValueError ''SDK is not configured. Call 'configure' first.''), [])
 \<and> extract_atoms_png None fs send fi filename =
     (Inl (Exc ValueError ''SDK is not configured. Call 'configure' first.''), [])
 \<and> extract_atoms_powerpoint None fs send fi ocr filename =
     (Inl (Exc ValueError ''SDK is not configured. Call 'configure' first.''), [])
 \<and> extract_atoms_rtf None fs send fi ocr filename =
     (Inl (Exc ValueError ''SDK is not configured. Call 'configure' first.''), [])
 \<and> extract_atoms_text None fs send fi filename =
     (Inl (Exc ValueError ''SDK is not configured. Call 'configure' first.''), [])
 \<and> extract_atoms_word None fs send fi filename =
     (Inl (Exc ValueError ''SDK is not configured. Call 'configure' first.''), [])
 \<and> extract_atoms_xml None fs send fi filename =
     (Inl (Exc ValueError ''SDK is not configured. Call 'configure' first.''), [])"
proof -
  have c: "validate_connectivity None send =
     (Inl (Exc ValueError ''SDK is not configured. Call 'configure' first.''), [])"
    by (simp add: validate_connectivity_def get_client_def)
  have d: "TypeDetection_detect_type to_float None fs send fi filename =
     (Inl (Exc ValueError ''SDK is not configured. Call 'configure' first.''), [])"
    by (simp add: TypeDetection_detect_type_def detect_type_def get_client_def)
  show ?thesis
    unfolding extract_atoms_csv_def extract_atoms_excel_def extract_atoms_html_def
      extract_atoms_json_def extract_atoms_markdown_def extract_atoms_ocr_def
      extract_atoms_pdf_def extract_atoms_png_def extract_atoms_powerpoint_def
      extract_atoms_rtf_def extract_atoms_text_def extract_atoms_word_def extract_atoms_xml_def
    by (simp only: c d extract_atoms_not_configured simp_thms)
qed



section \<open>The extraction result\<close>

lemma pdf_supported: "lower ''pdf'' \<in> set SUPPORTED_FORMATS"
proof -
  have "lower ''pdf'' = ''pdf''" by code_simp
  then show ?thesis by (simp add: SUPPORTED_FORMATS_def)
qed

lemma extract_pdf_bytes:
  "extract_atoms (Some c) fs send (BytesInput b) ''pdf'' None (Some ''a.pdf'') =
     (send c \<lparr>req_method = ''POST'', req_url = ''atom/pdf'', req_content = Some b,
               req_headers = [(''Content-Type'', ''application/pdf'')]\<rparr>,
      [Sent \<lparr>req_method = ''POST'', req_url = ''atom/pdf'', req_content = Some b,
             req_headers = [(''Content-Type'', ''application/pdf'')]\<rparr>])"
proof -
  have l: "lower ''pdf'' = ''pdf''" by code_simp
  have u: "get_url_base ''atom'' [Some ''pdf''] (ocr_params ''pdf'' None) = ''atom/pdf''"
    by (simp add: atom_url)
  have m: "map_of MIME_TYPES ''pdf'' = Some ''application/pdf''"
    by (simp add: MIME_TYPES_def)
  show ?thesis
    using pdf_supported
    by (simp add: extract_atoms_supported l u m prepare_file_input_def send_file_def
        read_from_start_def opened_def closed_def Let_def)
qed

text \<open>
  C10 as stated fails for some objects without an \<open>Atoms\<close> key: one whose
  \<open>Metadata\<close> is not an object is refused by the model, and one that carries the list
  under the field's own name \<open>atoms\<close> (the model sets \<open>populate_by_name\<close>) gives a
  result whose atoms are that list.
\<close>

theorem missing_atoms_counterexample:
  "map_of [(''Metadata'', JStr ''n/a'')] ''Atoms'' = None
 \<and> fst (AtomExtraction_extract_atoms (Some \<lparr>base_url = ''http://test-api.com'', timeout = 10, retries = 3\<rparr>) (\<lambda>p. None)
      (\<lambda>c r. Inr (Some (JObj [(''Metadata'', JStr ''n/a'')])))
      (BytesInput [1]) ''pdf'' None (Some ''a.pdf'')) =
     Inl (Exc PydanticValidationError ''AtomExtractionResultModel'')
 \<and> map_of [(''atoms'', JArr [JObj [(''Content'', JStr ''hello'')]])] ''Atoms'' = None
 \<and> fst (AtomExtraction_extract_atoms (Some \<lparr>base_url = ''http://test-api.com'', timeout = 10, retries = 3\<rparr>) (\<lambda>p. None)
      (\<lambda>c r. Inr (Some (JObj [(''atoms'', JArr [JObj [(''Content'', JStr ''hello'')]])])))
      (BytesInput [1]) ''pdf'' None (Some ''a.pdf'')) =
     Inr \<lparr>result_atoms = [\<lparr>atom_content = ''hello'', atom_type = None, atom_position = None,
                             atom_metadata = None\<rparr>],
          result_metadata = None, result_file_type = None\<rparr>"
  by (simp add: AtomExtraction_extract_atoms_def extract_pdf_bytes AtomExtractionResultModel_def
      field_def atoms_field_def validate_atom_def required_str_def optional_str_def
      optional_dict_def)

text \<open>
  C10, amended. When the response body is a JSON object with neither an \<open>Atoms\<close> nor
  an \<open>atoms\<close> key, and its \<open>Metadata\<close> and \<open>FileType\<close> fields are absent or valid,
  \<open>AtomExtraction.extract_atoms\<close> returns a result whose atoms list is empty; the empty
  object \<open>{}\<close> is such a body.
\<close>

theorem missing_atoms_default:
  assumes "extract_atoms g fs send fi format_type ocr filename = (Inr (Some (JObj kv)), es)"
    and "map_of kv ''Atoms'' = None" and "map_of kv ''atoms'' = None"
    and "optional_dict (field kv ''Metadata'' ''metadata'') = Some m"
    and "optional_str (field kv ''FileType'' ''file_type'') = Some f"
  shows "AtomExtraction_extract_atoms g fs send fi format_type ocr filename =
           (Inr \<lparr>result_atoms = [], result_metadata = m, result_file_type = f\<rparr>, es)"
  using assms
  by (simp add: AtomExtraction_extract_atoms_def AtomExtractionResultModel_def field_def
      atoms_field_def)

theorem missing_atoms_default_witness:
  "AtomExtraction_extract_atoms (Some \<lparr>base_url = ''http://test-api.com'', timeout = 10, retries = 3\<rparr>) (\<lambda>p. None)
      (\<lambda>c r. Inr (Some (JObj []))) (BytesInput [1]) ''pdf'' None (Some ''a.pdf'') =
     (Inr \<lparr>result_atoms = [], result_metadata = None, result_file_type = None\<rparr>,
      [Sent \<lparr>req_method = ''POST'', req_url = ''atom/pdf'', req_content = Some [1],
             req_headers = [(''Content-Type'', ''application/pdf'')]\<rparr>])"
proof -
  have e: "extract_atoms (Some \<lparr>base_url = ''http://test-api.com'', timeout = 10, retries = 3\<rparr>) (\<lambda>p. None)
      (\<lambda>c r. Inr (Some (JObj []))) (BytesInput [1]) ''pdf'' None (Some ''a.pdf'') =
     (Inr (Some (JObj [])),
      [Sent \<lparr>req_method = ''POST'', req_url = ''atom/pdf'', req_content = Some [1],
             req_headers = [(''Content-Type'', ''application/pdf'')]\<rparr>])"
    by (simp add: extract_pdf_bytes)
  have a: "map_of ([] :: (string \<times> json) list) ''Atoms'' = None"
    and b: "map_of ([] :: (string \<times> json) list) ''atoms'' = None" by simp_all
  have m: "optional_dict (field [] ''Metadata'' ''metadata'') = Some None"
    by (simp add: optional_dict_def field_def)
  have f: "optional_str (field [] ''FileType'' ''file_type'') = Some None"
    by (simp add: optional_str_def field_def)
  show ?thesis by (rule missing_atoms_default [OF e a b m f])
qed

section \<open>Retries and error responses\<close>




lemma request_first_reply:
  "transport 0 = Reply resp \<Longrightarrow>
   request c code_of detail before after transport =
     (if is_2xx (resp_status resp) then handle_success detail resp
      else Inl (handle_error_response code_of detail resp), 1)"
  by (simp add: request_def)

text \<open>
  C2. When the first transport invocation returns a response whose status is not 2xx,
  \<open>request\<close> makes that one invocation only and raises; for a body that carries an
  \<open>Error\<close> code of the table and a \<open>Description\<close>, the exception is the one the table
  gives for the code and its message is the description, unchanged; a body without a
  recognised code raises the generic exception (or \<open>ServerError\<close> by status). The table
  is the one of the spec's section 4.3.
\<close>

theorem error_response_not_retried:
  assumes "transport 0 = Reply resp" and "\<not> is_2xx (resp_status resp)"
  shows "snd (request c code_of detail before after transport) = 1
       \<and> (\<exists>e. fst (request c code_of detail before after transport) = Inl e)
       \<and> (\<forall>code d k. error_record (resp_body resp) = Some (code, d) \<longrightarrow> code_of code = Some k \<longrightarrow>
             fst (request c code_of detail before after transport) = Inl (Exc (exception_for k) d))
       \<and> ((\<forall>code d. error_record (resp_body resp) = Some (code, d) \<longrightarrow> code_of code = None) \<longrightarrow>
             (\<exists>m. fst (request c code_of detail before after transport) = Inl (Exc SdkException m)
                \<or> fst (request c code_of detail before after transport) = Inl (Exc ServerError m)))
       \<and> exception_for AuthenticationFailure = AuthenticationError
       \<and> exception_for AuthorizationFailure = AuthorizationError
       \<and> exception_for BadRequest = BadRequestError
       \<and> exception_for Conflict = ConflictError
       \<and> exception_for DeserializationFailure = DeserializationError
       \<and> exception_for Inactive = InactiveError
       \<and> exception_for InUse = InUseError
       \<and> exception_for InvalidRange = InvalidRangeError
       \<and> exception_for NotEmpty = NotEmptyError
       \<and> exception_for NotFound = ResourceNotFoundError
       \<and> exception_for InternalError = ServerError
       \<and> exception_for TimedOut = TimeoutError"
proof -
  have r: "request c code_of detail before after transport = (Inl (handle_error_response code_of detail resp), 1)"
    using assms by (simp add: request_first_reply)
  have fallback: "(\<forall>code d. error_record (resp_body resp) = Some (code, d) \<longrightarrow> code_of code = None) \<Longrightarrow>
      \<exists>m. handle_error_response code_of detail resp = Exc SdkException m
         \<or> handle_error_response code_of detail resp = Exc ServerError m"
    by (cases "error_record (resp_body resp)") (auto simp: handle_error_response_def)
  show ?thesis
    using fallback by (simp add: r handle_error_response_def)
qed

theorem error_response_not_retried_witness:
  "snd (request \<lparr>base_url = ''http://test-api.com'', timeout = 10, retries = 3\<rparr>
      (\<lambda>code. if code = ''Conflict'' then Some Conflict else None) (\<lambda>resp. [])
      ''Request failed after '' '' attempts''
      (\<lambda>i. Reply \<lparr>resp_status = 409, resp_body = JsonBody (JObj
          [(''Error'', JStr ''Conflict''),
           (''Description'', JStr ''Operation failed as it would create a conflict with an existing resource.'')])\<rparr>))
     = 1
 \<and> fst (request \<lparr>base_url = ''http://test-api.com'', timeout = 10, retries = 3\<rparr>
      (\<lambda>code. if code = ''Conflict'' then Some Conflict else None) (\<lambda>resp. [])
      ''Request failed after '' '' attempts''
      (\<lambda>i. Reply \<lparr>resp_status = 409, resp_body = JsonBody (JObj
          [(''Error'', JStr ''Conflict''),
           (''Description'', JStr ''Operation failed as it would create a conflict with an existing resource.'')])\<rparr>))
     = Inl (Exc ConflictError ''Operation failed as it would create a conflict with an existing resource.'')"
proof -
  have n: "\<not> is_2xx (resp_status \<lparr>resp_status = 409, resp_body = JsonBody (JObj
          [(''Error'', JStr ''Conflict''),
           (''Description'', JStr ''Operation failed as it would create a conflict with an existing resource.'')])\<rparr>)"
    by (simp add: is_2xx_def)
  have e: "error_record (JsonBody (JObj
          [(''Error'', JStr ''Conflict''),
           (''Description'', JStr ''Operation failed as it would create a conflict with an existing resource.'')]))
        = Some (''Conflict'', ''Operation failed as it would create a conflict with an existing resource.'')"
    by (simp add: error_record_def)
  show ?thesis
    using error_response_not_retried [OF refl n,
        where c = "\<lparr>base_url = ''http://test-api.com'', timeout = 10, retries = 3\<rparr>"
        and code_of = "\<lambda>code. if code = ''Conflict'' then Some Conflict else None"
        and detail = "\<lambda>resp. []" and before = "''Request failed after ''"
        and after = "'' attempts''"]
    by (simp add: e)
qed

end
